theory Spec2Isabelle
  imports Main "HOL-Library.Word"
begin

unbundle bit_operations_syntax

section \<open>The Acer WMI extension driver (acer-wmi-ext.c)\<close>

text \<open>
  A shallow embedding of the driver's control logic. The driver's global variables form
  one record that every operation takes and returns. Everything the driver calls outside
  its own file (the WMI method evaluator, the embedded controller, the platform-profile
  registration, sleeping) is a field of the record \<open>platform\<close>; each such call is
  appended to the \<open>trace\<close> of the state, in the order the calls happen, and the
  platform's answer may depend on the whole trace so far, so the firmware may answer the
  same request differently at different times. Log output is not modelled.
\<close>

subsection \<open>Machine types and kernel constants\<close>

type_synonym u8 = "8 word"
type_synonym u32 = "32 word"
type_synonym u64 = "64 word"

text \<open>The two WMI method namespaces: \<open>WMI_GUID1\<close> is the battery interface,
  \<open>WMI_GUID2\<close> the ApgeAction interface.\<close>

datatype guid = WMI_GUID1 | WMI_GUID2

definition ACER_WMID_SET_FUNCTION :: u32 where
  "ACER_WMID_SET_FUNCTION = 1"

definition ACER_WMID_GET_FUNCTION :: u32 where
  "ACER_WMID_GET_FUNCTION = 2"

text \<open>\<open>acpi_status\<close> is a 32-bit code; \<open>AE_OK\<close> is 0, \<open>AE_ERROR\<close> is 1 and
  the macro \<open>ACPI_FAILURE\<close> tests for a non-zero code (ACPICA's acexcep.h).\<close>

type_synonym acpi_status = u32

definition AE_OK :: acpi_status where
  "AE_OK = 0"

definition AE_ERROR :: acpi_status where
  "AE_ERROR = 1"

definition ACPI_FAILURE :: "acpi_status \<Rightarrow> bool" where
  "ACPI_FAILURE a = (a \<noteq> 0)"

text \<open>The object a WMI method returns: the driver tells a byte buffer (with its
  length) from an integer and from every other type.\<close>

datatype acpi_object =
    ACPI_TYPE_BUFFER "u8 list"
  | ACPI_TYPE_INTEGER u64
  | ACPI_TYPE_OTHER

text \<open>Error numbers of the kernel (errno-base.h, errno.h); the driver returns them
  negated.\<close>

definition EIO :: int where
  "EIO = 5"

definition ENODEV :: int where
  "ENODEV = 19"

definition EINVAL :: int where
  "EINVAL = 22"

definition EOPNOTSUPP :: int where
  "EOPNOTSUPP = 95"

text \<open>A pointer that may carry an error (err.h) is modelled by its value as a signed
  long: the error pointers are the values from \<open>-MAX_ERRNO = -4095\<close> to \<open>-1\<close>.\<close>

definition IS_ERR :: "int \<Rightarrow> bool" where
  "IS_ERR p = (- 4095 \<le> p \<and> p < 0)"

definition PTR_ERR :: "int \<Rightarrow> int" where
  "PTR_ERR p = p"

text \<open>The profiles of the platform-profile framework (platform_profile.h).\<close>

datatype platform_profile_option =
    PLATFORM_PROFILE_LOW_POWER
  | PLATFORM_PROFILE_COOL
  | PLATFORM_PROFILE_QUIET
  | PLATFORM_PROFILE_BALANCED
  | PLATFORM_PROFILE_BALANCED_PERFORMANCE
  | PLATFORM_PROFILE_PERFORMANCE
  | PLATFORM_PROFILE_CUSTOM

subsection \<open>The driver's data\<close>

text \<open>\<open>enum battery_mode\<close>: the bit of each mode in the function mask.\<close>

definition HEALTH_MODE :: u8 where
  "HEALTH_MODE = 1"

definition CALIBRATION_MODE :: u8 where
  "CALIBRATION_MODE = 2"

definition ACER_SYSTEM_CONTROL_MODE_EC_OFFSET :: u8 where
  "ACER_SYSTEM_CONTROL_MODE_EC_OFFSET = 0x45"

text \<open>\<open>enum system_control_mode\<close>.\<close>

definition SYSTEM_CONTROL_BALANCED :: int where
  "SYSTEM_CONTROL_BALANCED = 1"

definition SYSTEM_CONTROL_SILENT :: int where
  "SYSTEM_CONTROL_SILENT = 2"

definition SYSTEM_CONTROL_PERFORMANCE :: int where
  "SYSTEM_CONTROL_PERFORMANCE = 3"

text \<open>The packed structures of the two battery calls, one field per member.\<close>

record get_battery_health_control_status_input =
  gi_uBatteryNo :: u8
  gi_uFunctionQuery :: u8
  gi_uReserved :: "u8 list"

record get_battery_health_control_status_output =
  uFunctionList :: u8
  go_uReturn :: "u8 list"
  uFunctionStatus :: "u8 list"

record set_battery_health_control_input =
  si_uBatteryNo :: u8
  uFunctionMask :: u8
  si_uFunctionStatus :: u8
  uReservedIn :: "u8 list"

text \<open>The bytes of a packed input structure, in member order.\<close>

definition get_input_bytes :: "get_battery_health_control_status_input \<Rightarrow> u8 list" where
  "get_input_bytes p = gi_uBatteryNo p # gi_uFunctionQuery p # gi_uReserved p"

definition set_input_bytes :: "set_battery_health_control_input \<Rightarrow> u8 list" where
  "set_input_bytes p = si_uBatteryNo p # uFunctionMask p # si_uFunctionStatus p # uReservedIn p"

text \<open>Reading the output structure off the start of a buffer: one byte of function
  list, two bytes of return code, five status bytes. The driver only uses the result
  when the buffer has exactly eight bytes.\<close>

definition get_output_of_bytes :: "u8 list \<Rightarrow> get_battery_health_control_status_output" where
  "get_output_of_bytes bs =
     \<lparr>uFunctionList = bs ! 0, go_uReturn = take 2 (drop 1 bs),
      uFunctionStatus = take 5 (drop 3 bs)\<rparr>"

text \<open>\<open>struct battery_info\<close>: two signed bytes, which only ever hold -1, 0 or 1.\<close>

record battery_info =
  health_mode :: int
  calibration_mode :: int

text \<open>\<open>struct quirk_entry\<close> and the three entries the driver declares.\<close>

record quirk_entry =
  system_control_mode :: u8
  usb_charge_mode :: u8

definition quirk_unknown :: quirk_entry where
  "quirk_unknown = \<lparr>system_control_mode = 0, usb_charge_mode = 0\<rparr>"

definition quirk_acer_system_control_mode :: quirk_entry where
  "quirk_acer_system_control_mode = \<lparr>system_control_mode = 1, usb_charge_mode = 0\<rparr>"

definition quirk_acer_sfg174_73 :: quirk_entry where
  "quirk_acer_sfg174_73 = \<lparr>system_control_mode = 1, usb_charge_mode = 1\<rparr>"

text \<open>What the driver does to the outside, in order.\<close>

datatype event =
    WmiCall guid u32 "u8 list"
  | EcRead u8
  | EcWrite u8 u8
  | ProfileRegister
  | Msleep int

text \<open>The outside of the driver. Every answer is a function of the trace so far.
  \<open>wmi_evaluate_method\<close> gives the status and the object its output buffer points
  to (\<open>None\<close> for a null pointer); \<open>ec_read\<close> gives the error code and the byte
  read; \<open>ec_write\<close> gives the error code; \<open>devm_platform_profile_register\<close>
  gives the returned pointer.\<close>

record platform =
  wmi_has_guid :: "guid \<Rightarrow> bool"
  wmi_evaluate_method :: "event list \<Rightarrow> guid \<Rightarrow> u32 \<Rightarrow> u8 list \<Rightarrow> acpi_status \<times> acpi_object option"
  ec_read :: "event list \<Rightarrow> u8 \<Rightarrow> int \<times> u8"
  ec_write :: "event list \<Rightarrow> u8 \<Rightarrow> u8 \<Rightarrow> int"
  devm_platform_profile_register :: "event list \<Rightarrow> int"

text \<open>The global variables of the driver, with the initial values of the file. The
  integer variables are modelled as \<open>int\<close>: \<open>control_mode\<close> (a short) only receives a
  byte read from the controller or a value between 1 and 3, and
  \<open>usb_charge_mode_enable\<close> (an int) only receives -1, 0 or 1.\<close>

record driver =
  battery_status :: battery_info
  control_mode :: int
  enable_health_mode :: int
  enable_system_control_mode :: int
  usb_charge_mode_enable :: int
  system_control_mode_inited :: int
  platform_profile_device :: int
  platform_profile_support :: bool
  trace :: "event list"

definition initial_driver :: driver where
  "initial_driver =
     \<lparr>battery_status = \<lparr>health_mode = 0, calibration_mode = 0\<rparr>,
      control_mode = - 1, enable_health_mode = - 1, enable_system_control_mode = - 1,
      usb_charge_mode_enable = 0, system_control_mode_inited = 0,
      platform_profile_device = 0, platform_profile_support = False, trace = []\<rparr>"

definition log_event :: "event \<Rightarrow> driver \<Rightarrow> driver" where
  "log_event e s = s\<lparr>trace := trace s @ [e]\<rparr>"

subsection \<open>Parsing what user space writes\<close>

text \<open>
  The attribute stores parse their buffer with the kernel's \<open>kstrtobool\<close>,
  \<open>kstrtoint\<close> and \<open>sscanf\<close>. These are not part of the driver; a store takes the
  buffer as what the parser makes of it. For \<open>kstrtobool\<close> and \<open>kstrtoint\<close> that is
  the pair of the error code and the value. For \<open>sscanf\<close> with the conversion
  \<open>%hhd\<close> the buffer is given by the decimal integer it starts with, if it starts with
  one: the kernel's \<open>vsscanf\<close> reads the integer and then assigns it through a pointer to
  \<open>signed char\<close>, which keeps its low eight bits, and the driver passes the address of a
  \<open>u8\<close>. It returns the number of conversions made.
\<close>

definition sscanf_hhd :: "int option \<Rightarrow> int \<times> u8" where
  "sscanf_hhd buf = (case buf of None \<Rightarrow> (0, 0) | Some n \<Rightarrow> (1, word_of_int n))"

subsection \<open>Byte order\<close>

text \<open>The ApgeAction call passes a 64-bit operand as eight bytes and reads a buffer of
  four or eight bytes back as an integer, both in the byte order of the machine, which
  is little-endian on the laptops the driver is for.\<close>

definition u64_bytes :: "u64 \<Rightarrow> u8 list" where
  "u64_bytes w = map (\<lambda>i. ucast (drop_bit (8 * i) w)) [0..<8]"

definition le_u64 :: "u8 list \<Rightarrow> u64" where
  "le_u64 bs = foldr (\<lambda>b acc. ucast b OR push_bit 8 acc) bs 0"

subsection \<open>Calls to the outside\<close>

definition wmi_call ::
  "platform \<Rightarrow> guid \<Rightarrow> u32 \<Rightarrow> u8 list \<Rightarrow> driver \<Rightarrow> (acpi_status \<times> acpi_object option) \<times> driver" where
  "wmi_call hw g method_id input s =
     (wmi_evaluate_method hw (trace s) g method_id input, log_event (WmiCall g method_id input) s)"

definition ec_read_call :: "platform \<Rightarrow> u8 \<Rightarrow> driver \<Rightarrow> (int \<times> u8) \<times> driver" where
  "ec_read_call hw addr s = (ec_read hw (trace s) addr, log_event (EcRead addr) s)"

definition ec_write_call :: "platform \<Rightarrow> u8 \<Rightarrow> u8 \<Rightarrow> driver \<Rightarrow> int \<times> driver" where
  "ec_write_call hw addr v s = (ec_write hw (trace s) addr v, log_event (EcWrite addr v) s)"

subsection \<open>The WMID ApgeAction interface\<close>

text \<open>\<open>acer_wmi_apgeaction_exec_u64\<close>: \<open>Inl status\<close> when the evaluation fails, and
  then \<open>*out\<close> is not written; \<open>Inr tmp\<close> when it returns the status of a successful
  evaluation, with \<open>tmp\<close> written to \<open>*out\<close>. Every caller passes a non-null
  \<open>out\<close>.\<close>

definition acer_wmi_apgeaction_exec_u64 ::
  "platform \<Rightarrow> u32 \<Rightarrow> u64 \<Rightarrow> driver \<Rightarrow> (acpi_status + u64) \<times> driver" where
  "acer_wmi_apgeaction_exec_u64 hw method_id inp s =
     (let ((status, obj), s1) = wmi_call hw WMI_GUID2 method_id (u64_bytes inp) s
      in if ACPI_FAILURE status then (Inl status, s1)
         else (Inr (case obj of
                      None \<Rightarrow> 0
                    | Some (ACPI_TYPE_BUFFER bs) \<Rightarrow>
                        if length bs = 4 then le_u64 bs
                        else if length bs = 8 then le_u64 bs
                        else 0
                    | Some (ACPI_TYPE_INTEGER v) \<Rightarrow> v
                    | Some ACPI_TYPE_OTHER \<Rightarrow> 0), s1))"

subsection \<open>Battery health and calibration\<close>

text \<open>\<open>get_battery_health_control_status\<close>, called on the global
  \<open>battery_status\<close>. The source copies the structure out of the buffer before it
  checks the length; the copy is only used after the check.\<close>

definition get_battery_health_control_status :: "platform \<Rightarrow> driver \<Rightarrow> acpi_status \<times> driver" where
  "get_battery_health_control_status hw s =
     (let params = \<lparr>gi_uBatteryNo = 1, gi_uFunctionQuery = 1, gi_uReserved = [0, 0]\<rparr>;
          ((status, obj), s1) = wmi_call hw WMI_GUID1 20 (get_input_bytes params) s
      in if ACPI_FAILURE status then (status, s1)
         else case obj of
           None \<Rightarrow> (AE_ERROR, s1)
         | Some (ACPI_TYPE_BUFFER bs) \<Rightarrow>
             if length bs \<noteq> 8 then (AE_ERROR, s1)
             else
               let ret = get_output_of_bytes bs
               in (status,
                   s1\<lparr>battery_status :=
                        \<lparr>health_mode =
                           (if uFunctionList ret AND HEALTH_MODE \<noteq> 0
                            then (if uFunctionStatus ret ! 0 > 0 then 1 else 0) else - 1),
                         calibration_mode =
                           (if uFunctionList ret AND CALIBRATION_MODE \<noteq> 0
                            then (if uFunctionStatus ret ! 1 > 0 then 1 else 0) else - 1)\<rparr>\<rparr>)
         | Some (ACPI_TYPE_INTEGER v) \<Rightarrow> (AE_ERROR, s1)
         | Some ACPI_TYPE_OTHER \<Rightarrow> (AE_ERROR, s1))"

definition set_battery_health_control ::
  "platform \<Rightarrow> u8 \<Rightarrow> bool \<Rightarrow> driver \<Rightarrow> acpi_status \<times> driver" where
  "set_battery_health_control hw function function_status s =
     (let params = \<lparr>si_uBatteryNo = 1, uFunctionMask = function,
                     si_uFunctionStatus = (if function_status then 1 else 0),
                     uReservedIn = [0, 0, 0, 0, 0]\<rparr>;
          ((status, obj), s1) = wmi_call hw WMI_GUID1 21 (set_input_bytes params) s
      in if ACPI_FAILURE status then (status, s1)
         else case obj of
           None \<Rightarrow> (AE_ERROR, s1)
         | Some (ACPI_TYPE_BUFFER bs) \<Rightarrow> (if length bs \<noteq> 4 then AE_ERROR else status, s1)
         | Some (ACPI_TYPE_INTEGER v) \<Rightarrow> (AE_ERROR, s1)
         | Some ACPI_TYPE_OTHER \<Rightarrow> (AE_ERROR, s1))"

definition init_state :: "platform \<Rightarrow> driver \<Rightarrow> acpi_status \<times> driver" where
  "init_state hw s = get_battery_health_control_status hw s"

text \<open>\<open>update_state\<close> drops the status of the query; what it logs is not modelled.\<close>

definition update_state :: "platform \<Rightarrow> driver \<Rightarrow> driver" where
  "update_state hw s = snd (get_battery_health_control_status hw s)"

text \<open>The attribute stores return the count of bytes taken, or a negative error number.
  \<open>buf\<close> is what \<open>kstrtobool\<close> makes of the buffer.\<close>

definition health_mode_store :: "platform \<Rightarrow> int \<times> bool \<Rightarrow> int \<Rightarrow> driver \<Rightarrow> int \<times> driver" where
  "health_mode_store hw buf count s =
     (if health_mode (battery_status s) < 0 then (0, s)
      else
        let (err, param_val) = buf
        in if err \<noteq> 0 then (err, s)
           else
             let (status, s1) = set_battery_health_control hw HEALTH_MODE param_val s;
                 s2 = update_state hw s1
             in (count, s2))"

definition calibration_mode_store :: "platform \<Rightarrow> int \<times> bool \<Rightarrow> int \<Rightarrow> driver \<Rightarrow> int \<times> driver" where
  "calibration_mode_store hw buf count s =
     (if calibration_mode (battery_status s) < 0 then (0, s)
      else
        let (err, param_val) = buf
        in if err \<noteq> 0 then (err, s)
           else
             let (status, s1) = set_battery_health_control hw CALIBRATION_MODE param_val s;
                 s2 = update_state hw s1
             in (count, s2))"

text \<open>The attribute reads print one of the cached values.\<close>

definition health_mode_show :: "driver \<Rightarrow> int" where
  "health_mode_show s = health_mode (battery_status s)"

definition calibration_mode_show :: "driver \<Rightarrow> int" where
  "calibration_mode_show s = calibration_mode (battery_status s)"

subsection \<open>System control mode through the attribute\<close>

definition system_control_mode_show :: "driver \<Rightarrow> int" where
  "system_control_mode_show s = control_mode s"

text \<open>\<open>buf\<close> is what \<open>kstrtoint\<close> makes of the buffer.\<close>

definition system_control_mode_store :: "platform \<Rightarrow> int \<times> int \<Rightarrow> int \<Rightarrow> driver \<Rightarrow> int \<times> driver" where
  "system_control_mode_store hw buf count s =
     (if control_mode s < 0 then (0, s)
      else
        let (err, param_val) = buf
        in if err \<noteq> 0 then (err, s)
           else if param_val < SYSTEM_CONTROL_BALANCED \<or> param_val > SYSTEM_CONTROL_PERFORMANCE
           then (- EINVAL, s)
           else
             let (err, s1) = ec_write_call hw ACER_SYSTEM_CONTROL_MODE_EC_OFFSET (word_of_int param_val) s
             in if err < 0 then (err, s1)
                else (count, s1\<lparr>control_mode := param_val\<rparr>))"

subsection \<open>USB charging\<close>

definition init_usb_charge_mode :: "platform \<Rightarrow> quirk_entry \<Rightarrow> driver \<Rightarrow> driver" where
  "init_usb_charge_mode hw quirks s =
     (if usb_charge_mode quirks = 0 then s
      else if \<not> wmi_has_guid hw WMI_GUID2 then s
      else case acer_wmi_apgeaction_exec_u64 hw ACER_WMID_GET_FUNCTION 0x4 s of
        (Inl status, s1) \<Rightarrow> s1
      | (Inr result, s1) \<Rightarrow>
          if result = 663296 then s1\<lparr>usb_charge_mode_enable := 0\<rparr>
          else if result = 659200 \<or> result = 1314560 \<or> result = 1969920
          then s1\<lparr>usb_charge_mode_enable := 1\<rparr>
          else s1\<lparr>usb_charge_mode_enable := - 1\<rparr>)"

definition usb_charge_mode_show :: "driver \<Rightarrow> int" where
  "usb_charge_mode_show s = usb_charge_mode_enable s"

text \<open>\<open>buf\<close> is the integer \<open>sscanf\<close> finds in the buffer, if any.\<close>

definition usb_charge_mode_store ::
  "platform \<Rightarrow> quirk_entry \<Rightarrow> int option \<Rightarrow> int \<Rightarrow> driver \<Rightarrow> int \<times> driver" where
  "usb_charge_mode_store hw quirks buf count s =
     (if usb_charge_mode quirks = 0 then (- EOPNOTSUPP, s)
      else
        let (n, val) = sscanf_hhd buf
        in if n \<noteq> 1 then (- EINVAL, s)
           else if val \<noteq> 0 \<and> val \<noteq> 1 then (- EINVAL, s)
           else
             let input_value = (if val = 0 then 663300 else 1969924);
                 s1 = s\<lparr>usb_charge_mode_enable := uint val\<rparr>
             in case acer_wmi_apgeaction_exec_u64 hw ACER_WMID_SET_FUNCTION input_value s1 of
                  (Inl status, s2) \<Rightarrow> (- ENODEV, s2)
                | (Inr result, s2) \<Rightarrow> (count, s2))"

text \<open>The read of the limit prints the value it returns as \<open>Inr\<close>; \<open>Inl\<close> is a
  negative error number and nothing is printed.\<close>

definition usb_charge_limit_show :: "platform \<Rightarrow> quirk_entry \<Rightarrow> driver \<Rightarrow> (int + int) \<times> driver" where
  "usb_charge_limit_show hw quirks s =
     (if usb_charge_mode quirks = 0 then (Inl (- EOPNOTSUPP), s)
      else case acer_wmi_apgeaction_exec_u64 hw ACER_WMID_GET_FUNCTION 0x4 s of
        (Inl status, s1) \<Rightarrow> (Inl (- ENODEV), s1)
      | (Inr result, s1) \<Rightarrow>
          (Inr (if result = 659200 then 10
                else if result = 1314560 then 20
                else if result = 1969920 then 30
                else - 1), s1))"

definition usb_charge_limit_store ::
  "platform \<Rightarrow> quirk_entry \<Rightarrow> int option \<Rightarrow> int \<Rightarrow> driver \<Rightarrow> int \<times> driver" where
  "usb_charge_limit_store hw quirks buf count s =
     (if usb_charge_mode quirks = 0 then (- EOPNOTSUPP, s)
      else if usb_charge_mode_enable s = 0 then (- EINVAL, s)
      else
        let (n, val) = sscanf_hhd buf
        in if n \<noteq> 1 then (- EINVAL, s)
           else if val \<noteq> 10 \<and> val \<noteq> 20 \<and> val \<noteq> 30 then (- EINVAL, s)
           else
             let input_value = (if val = 10 then 659204 else if val = 20 then 1314564 else 1969924)
             in case acer_wmi_apgeaction_exec_u64 hw ACER_WMID_SET_FUNCTION input_value s of
                  (Inl status, s1) \<Rightarrow> (- ENODEV, s1)
                | (Inr result, s1) \<Rightarrow> (count, s1))"

subsection \<open>One-time initialisation of the system control mode\<close>

definition acer_system_control_mode_init :: "platform \<Rightarrow> driver \<Rightarrow> int \<times> driver" where
  "acer_system_control_mode_init hw s =
     (let s0 = s\<lparr>system_control_mode_inited := 1\<rparr>;
          ((err, tp), s1) = ec_read_call hw ACER_SYSTEM_CONTROL_MODE_EC_OFFSET s0
      in if err < 0 then (err, s1)
         else
           let s2 = s1\<lparr>control_mode := uint tp\<rparr>
           in if enable_system_control_mode s2 \<ge> 0 then
                if enable_system_control_mode s2 < SYSTEM_CONTROL_BALANCED \<or>
                   enable_system_control_mode s2 > SYSTEM_CONTROL_PERFORMANCE
                then (- EINVAL, s2)
                else
                  let (err, s3) = ec_write_call hw ACER_SYSTEM_CONTROL_MODE_EC_OFFSET
                                    (word_of_int (enable_system_control_mode s2)) s2
                  in if err < 0 then (err, s3)
                     else (0, s3\<lparr>control_mode := enable_system_control_mode s3\<rparr>)
              else (0, s2))"

subsection \<open>Platform profile support\<close>

text \<open>\<open>choices\<close> is the bitmap of profiles the framework passes in, as a set.\<close>

definition acer_platform_profile_probe ::
  "platform \<Rightarrow> quirk_entry \<Rightarrow> platform_profile_option set \<Rightarrow> driver
     \<Rightarrow> int \<times> platform_profile_option set \<times> driver" where
  "acer_platform_profile_probe hw quirks choices s =
     (if system_control_mode quirks = 0 then (- EOPNOTSUPP, choices, s)
      else
        let (err, s1) = (if system_control_mode_inited s = 0
                         then acer_system_control_mode_init hw s else (0, s))
        in if err \<noteq> 0 then (err, choices, s1)
           else (0,
                 insert PLATFORM_PROFILE_PERFORMANCE
                   (insert PLATFORM_PROFILE_BALANCED
                     (insert PLATFORM_PROFILE_LOW_POWER choices)),
                 s1))"

text \<open>\<open>Inr profile\<close> stands for the return value 0 with \<open>*profile\<close> written,
  \<open>Inl\<close> for a negative error number.\<close>

definition acer_platform_profile_get :: "driver \<Rightarrow> int + platform_profile_option" where
  "acer_platform_profile_get s =
     (if control_mode s = SYSTEM_CONTROL_BALANCED then Inr PLATFORM_PROFILE_BALANCED
      else if control_mode s = SYSTEM_CONTROL_PERFORMANCE then Inr PLATFORM_PROFILE_PERFORMANCE
      else if control_mode s = SYSTEM_CONTROL_SILENT then Inr PLATFORM_PROFILE_LOW_POWER
      else Inl (- EOPNOTSUPP))"

text \<open>The switch of \<open>acer_platform_profile_set\<close> from a profile to a mode code;
  \<open>None\<close> is its default branch.\<close>

fun profile_new_mode :: "platform_profile_option \<Rightarrow> int option" where
  "profile_new_mode PLATFORM_PROFILE_BALANCED = Some SYSTEM_CONTROL_BALANCED"
| "profile_new_mode PLATFORM_PROFILE_PERFORMANCE = Some SYSTEM_CONTROL_PERFORMANCE"
| "profile_new_mode PLATFORM_PROFILE_LOW_POWER = Some SYSTEM_CONTROL_SILENT"
| "profile_new_mode _ = None"

definition acer_platform_profile_set ::
  "platform \<Rightarrow> quirk_entry \<Rightarrow> platform_profile_option \<Rightarrow> driver \<Rightarrow> int \<times> driver" where
  "acer_platform_profile_set hw quirks profile s =
     (if system_control_mode quirks = 0 then (- EOPNOTSUPP, s)
      else case profile_new_mode profile of
        None \<Rightarrow> (- EOPNOTSUPP, s)
      | Some new_mode \<Rightarrow>
          if new_mode = control_mode s then (0, s)
          else
            let (err, s1) = ec_write_call hw ACER_SYSTEM_CONTROL_MODE_EC_OFFSET (word_of_int new_mode) s
            in if err < 0 then (err, s1)
               else (0, s1\<lparr>control_mode := new_mode\<rparr>))"

subsection \<open>Registration of the platform profile\<close>

definition max_retries :: nat where
  "max_retries = 10"

text \<open>The \<open>for\<close> loop of \<open>acer_platform_profile_setup\<close>, from the attempt it is
  at and with the current delay; after the loop the function returns the error of the
  pointer it got last.\<close>

function profile_register_loop :: "platform \<Rightarrow> nat \<Rightarrow> int \<Rightarrow> driver \<Rightarrow> int \<times> driver" where
  "profile_register_loop hw attempt delay_ms s =
     (if attempt \<le> max_retries then
        let s1 = log_event ProfileRegister
                   (s\<lparr>platform_profile_device := devm_platform_profile_register hw (trace s)\<rparr>)
        in if \<not> IS_ERR (platform_profile_device s1)
           then (0, s1\<lparr>platform_profile_support := True\<rparr>)
           else if attempt < max_retries
           then profile_register_loop hw (attempt + 1) (min (delay_ms * 2) 1000)
                  (log_event (Msleep delay_ms) s1)
           else profile_register_loop hw (attempt + 1) delay_ms s1
      else (PTR_ERR (platform_profile_device s), s))"
  by pat_completeness auto
termination
  by (relation "measure (\<lambda>(hw, attempt, delay_ms, s). Suc max_retries - attempt)") auto

declare profile_register_loop.simps [simp del]

definition acer_platform_profile_setup :: "platform \<Rightarrow> quirk_entry \<Rightarrow> driver \<Rightarrow> int \<times> driver" where
  "acer_platform_profile_setup hw quirks s =
     (if system_control_mode quirks = 0 then (0, s)
      else profile_register_loop hw 1 100 s)"

subsection \<open>Reading traces\<close>

fun is_ec_read :: "event \<Rightarrow> bool" where
  "is_ec_read (EcRead addr) = True"
| "is_ec_read _ = False"

fun is_register :: "event \<Rightarrow> bool" where
  "is_register ProfileRegister = True"
| "is_register _ = False"

text \<open>A number of calls of the profile probe, one after the other, each with an empty
  bitmap; the result lists the return values.\<close>

fun probe_calls :: "platform \<Rightarrow> quirk_entry \<Rightarrow> nat \<Rightarrow> driver \<Rightarrow> int list \<times> driver" where
  "probe_calls hw quirks 0 s = ([], s)"
| "probe_calls hw quirks (Suc n) s =
     (let (r, choices, s1) = acer_platform_profile_probe hw quirks {} s;
          (rs, s2) = probe_calls hw quirks n s1
      in (r # rs, s2))"

subsection \<open>The registration protocol as the specification words it\<close>

text \<open>The delay before the retry that follows failed attempt number \<open>i + 1\<close>: it
  starts at 100, doubles with each attempt and is capped at 1000.\<close>

definition backoff_delay :: "nat \<Rightarrow> int" where
  "backoff_delay i = min (100 * 2 ^ i) 1000"

text \<open>What \<open>k\<close> failed attempts leave in the trace, each followed by its sleep, and
  the pointer that attempt number \<open>k + 1\<close> gets after them.\<close>

definition failed_attempts :: "nat \<Rightarrow> event list" where
  "failed_attempts k = concat (map (\<lambda>i. [ProfileRegister, Msleep (backoff_delay i)]) [0..<k])"

definition attempt_result :: "platform \<Rightarrow> driver \<Rightarrow> nat \<Rightarrow> int" where
  "attempt_result hw s k = devm_platform_profile_register hw (trace s @ failed_attempts k)"

subsection \<open>A platform for worked examples\<close>

text \<open>A platform that has both namespaces, answers a WMI call by the namespace and the
  method only, always gives the same answer to a register read and to a register
  write, and answers a registration by the number of registrations made before.\<close>

definition example_platform ::
  "(guid \<Rightarrow> u32 \<Rightarrow> acpi_status \<times> acpi_object option) \<Rightarrow> int \<times> u8 \<Rightarrow> int \<Rightarrow> (nat \<Rightarrow> int) \<Rightarrow> platform" where
  "example_platform wmi rd wr reg =
     \<lparr>wmi_has_guid = (\<lambda>g. True),
      wmi_evaluate_method = (\<lambda>tr g method_id input. wmi g method_id),
      ec_read = (\<lambda>tr addr. rd),
      ec_write = (\<lambda>tr addr v. wr),
      devm_platform_profile_register = (\<lambda>tr. reg (length (filter is_register tr)))\<rparr>"

text \<open>Five instances. \<open>battery_platform\<close> acknowledges a battery set with four
  bytes and answers the battery query with only the health mode available and on.
  \<open>failing_platform\<close> fails every call: WMI evaluations with \<open>AE_ERROR\<close>,
  the embedded controller with \<open>-EIO\<close>, registration with \<open>-EBUSY\<close>.
  \<open>short_platform\<close> answers every WMI call with a buffer of two bytes.
  \<open>usb_platform\<close> answers the ApgeAction get call with the four bytes of 659200,
  and its registration fails four times before it succeeds.
  \<open>write_failing_platform\<close> reads 2 from the embedded controller and fails every
  write to it with \<open>-EIO\<close>.\<close>

definition battery_platform :: platform where
  "battery_platform =
     example_platform
       (\<lambda>g method_id. if method_id = 21 then (AE_OK, Some (ACPI_TYPE_BUFFER [0, 0, 0, 0]))
                        else (AE_OK, Some (ACPI_TYPE_BUFFER [1, 0, 0, 1, 0, 0, 0, 0])))
       (0, 2) 0 (\<lambda>n. 4096)"

definition failing_platform :: platform where
  "failing_platform = example_platform (\<lambda>g method_id. (AE_ERROR, None)) (- 5, 0) (- 5) (\<lambda>n. - 16)"

definition short_platform :: platform where
  "short_platform =
     example_platform (\<lambda>g method_id. (AE_OK, Some (ACPI_TYPE_BUFFER [1, 2]))) (0, 2) 0 (\<lambda>n. 4096)"

definition usb_platform :: platform where
  "usb_platform =
     example_platform
       (\<lambda>g method_id. if method_id = 2 then (AE_OK, Some (ACPI_TYPE_BUFFER [0, 15, 10, 0]))
                        else (AE_OK, None))
       (0, 2) 0 (\<lambda>n. if n < 4 then - 16 else 4096)"

definition write_failing_platform :: platform where
  "write_failing_platform =
     example_platform (\<lambda>g method_id. (AE_OK, None)) (0, 2) (- 5) (\<lambda>n. 4096)"

section \<open>Properties\<close>

text \<open>The definitions that the worked examples unfold.\<close>

lemmas ex_defs = example_platform_def battery_platform_def failing_platform_def short_platform_def
  usb_platform_def write_failing_platform_def initial_driver_def log_event_def wmi_call_def ec_read_call_def ec_write_call_def
  AE_OK_def AE_ERROR_def ACPI_FAILURE_def quirk_acer_sfg174_73_def quirk_unknown_def
  ACER_SYSTEM_CONTROL_MODE_EC_OFFSET_def ACER_WMID_GET_FUNCTION_def ACER_WMID_SET_FUNCTION_def
  EINVAL_def ENODEV_def EOPNOTSUPP_def EIO_def

subsection \<open>Bits and bytes\<close>

lemma and_1_bit0: "(w AND 1 \<noteq> 0) = bit w 0" for w :: u8
  using and_exp_eq_0_iff_not_bit [of w 0] by simp

lemma and_2_bit1: "(w AND 2 \<noteq> 0) = bit w (Suc 0)" for w :: u8
  using and_exp_eq_0_iff_not_bit [of w 1] by simp

lemma byte_of_int_eq: "(word_of_int n = w) = (n mod 256 = uint w)" for w :: u8
  by (simp add: word_uint_eq_iff uint_word_of_int_eq take_bit_eq_mod)

lemma byte_of_int_eq_10: "(word_of_int n = (10 :: u8)) = (n mod 256 = 10)"
  and byte_of_int_eq_20: "(word_of_int n = (20 :: u8)) = (n mod 256 = 20)"
  and byte_of_int_eq_30: "(word_of_int n = (30 :: u8)) = (n mod 256 = 30)"
  by (simp_all add: byte_of_int_eq)

lemma u64_bytes_4: "u64_bytes 4 = [4, 0, 0, 0, 0, 0, 0, 0]"
  by (simp add: u64_bytes_def upt_rec drop_bit_eq_div)

lemma le_u64_example: "le_u64 [0, 15, 10, 0] = 659200"
  by (simp add: le_u64_def)

subsection \<open>The battery query\<close>

text \<open>
  Claim C6. Whenever the battery query succeeds with a buffer of eight bytes, which is read
  as the output structure \<open>ret\<close>, the cached value of each battery mode is -1 when the
  bit of the mode (bit 0 for health, bit 1 for calibration) is not set in the function
  list \<open>uFunctionList ret\<close>, and otherwise 1 when the status byte of the mode is
  positive and 0 when it is zero. The function list is byte 0 of the buffer and the two
  status bytes are its bytes 3 and 4.
\<close>

theorem query_tristate:
  assumes call: "wmi_evaluate_method hw (trace s) WMI_GUID1 20 [1, 1, 0, 0] =
                   (status, Some (ACPI_TYPE_BUFFER bs))"
    and ok: "\<not> ACPI_FAILURE status"
    and len: "length bs = 8"
    and ret: "ret = get_output_of_bytes bs"
  shows "get_battery_health_control_status hw s =
           (status,
            (log_event (WmiCall WMI_GUID1 20 [1, 1, 0, 0]) s)
              \<lparr>battery_status :=
                 \<lparr>health_mode =
                    (if \<not> bit (uFunctionList ret) 0 then - 1
                     else if 0 < uFunctionStatus ret ! 0 then 1 else 0),
                  calibration_mode =
                    (if \<not> bit (uFunctionList ret) 1 then - 1
                     else if 0 < uFunctionStatus ret ! 1 then 1 else 0)\<rparr>\<rparr>)
         \<and> uFunctionList ret = bs ! 0 \<and> uFunctionStatus ret ! 0 = bs ! 3
         \<and> uFunctionStatus ret ! 1 = bs ! 4"
  using assms
  by (simp add: get_battery_health_control_status_def wmi_call_def get_input_bytes_def
      get_output_of_bytes_def HEALTH_MODE_def CALIBRATION_MODE_def and_1_bit0 and_2_bit1)

text \<open>The scenario of the specification: a function list with only the health bit and
  a health status of 1 gives health 1 and calibration -1.\<close>

theorem query_tristate_witness:
  "get_battery_health_control_status
     (example_platform (\<lambda>g m. (AE_OK, Some (ACPI_TYPE_BUFFER [1, 0, 0, 1, 0, 0, 0, 0])))
        (0, 0) 0 (\<lambda>n. 0))
     initial_driver =
   (AE_OK, initial_driver
      \<lparr>battery_status := \<lparr>health_mode = 1, calibration_mode = - 1\<rparr>,
       trace := [WmiCall WMI_GUID1 20 [1, 1, 0, 0]]\<rparr>)"
  using query_tristate [of
      "example_platform (\<lambda>g m. (AE_OK, Some (ACPI_TYPE_BUFFER [1, 0, 0, 1, 0, 0, 0, 0])))
         (0, 0) 0 (\<lambda>n. 0)"
      initial_driver AE_OK "[1, 0, 0, 1, 0, 0, 0, 0]"
      "get_output_of_bytes [1, 0, 0, 1, 0, 0, 0, 0]"]
  by (simp add: example_platform_def initial_driver_def AE_OK_def ACPI_FAILURE_def
      get_output_of_bytes_def log_event_def)

subsection \<open>Lengths of the responses\<close>

text \<open>
  Claim C3, as amended. When the evaluation succeeds with a buffer, a battery query whose
  buffer does not have eight bytes returns \<open>AE_ERROR\<close> and leaves the cached battery
  state as it was, and a battery set whose acknowledgement does not have four bytes returns
  \<open>AE_ERROR\<close>. The ApgeAction call does not reject a buffer that has neither four nor
  eight bytes: it returns success with the value 0.
\<close>

theorem response_length:
  "(wmi_evaluate_method hw (trace s) WMI_GUID1 20 [1, 1, 0, 0] = (status, Some (ACPI_TYPE_BUFFER bs))
      \<and> \<not> ACPI_FAILURE status \<and> length bs \<noteq> 8 \<longrightarrow>
      get_battery_health_control_status hw s =
        (AE_ERROR, log_event (WmiCall WMI_GUID1 20 [1, 1, 0, 0]) s))
   \<and> (wmi_evaluate_method hw (trace s) WMI_GUID1 21 [1, f, if b then 1 else 0, 0, 0, 0, 0, 0] =
         (status, Some (ACPI_TYPE_BUFFER bs))
      \<and> \<not> ACPI_FAILURE status \<and> length bs \<noteq> 4 \<longrightarrow>
      set_battery_health_control hw f b s =
        (AE_ERROR, log_event (WmiCall WMI_GUID1 21 [1, f, if b then 1 else 0, 0, 0, 0, 0, 0]) s))
   \<and> (wmi_evaluate_method hw (trace s) WMI_GUID2 method_id (u64_bytes operand) =
         (status, Some (ACPI_TYPE_BUFFER bs))
      \<and> \<not> ACPI_FAILURE status \<and> length bs \<noteq> 4 \<and> length bs \<noteq> 8 \<longrightarrow>
      acer_wmi_apgeaction_exec_u64 hw method_id operand s =
        (Inr 0, log_event (WmiCall WMI_GUID2 method_id (u64_bytes operand)) s))"
  by (simp add: get_battery_health_control_status_def set_battery_health_control_def
      acer_wmi_apgeaction_exec_u64_def wmi_call_def get_input_bytes_def set_input_bytes_def)

theorem response_length_witness:
  "get_battery_health_control_status short_platform initial_driver =
     (AE_ERROR, initial_driver\<lparr>trace := [WmiCall WMI_GUID1 20 [1, 1, 0, 0]]\<rparr>)
   \<and> set_battery_health_control short_platform HEALTH_MODE True initial_driver =
     (AE_ERROR, initial_driver\<lparr>trace := [WmiCall WMI_GUID1 21 [1, 1, 1, 0, 0, 0, 0, 0]]\<rparr>)
   \<and> acer_wmi_apgeaction_exec_u64 short_platform ACER_WMID_SET_FUNCTION 663300 initial_driver =
     (Inr 0, initial_driver\<lparr>trace := [WmiCall WMI_GUID2 1 (u64_bytes 663300)]\<rparr>)"
  using response_length [of short_platform initial_driver AE_OK "[1, 2]" HEALTH_MODE True
      ACER_WMID_SET_FUNCTION 663300]
  by (simp add: ex_defs HEALTH_MODE_def)

text \<open>Against claim C3 as stated: the firmware answers the ApgeAction get call with a
  buffer of two bytes; the call returns success with the value 0, and the read of the USB
  charge limit, which makes this call, succeeds and prints -1.\<close>

theorem namespace_b_length_counterexample:
  "acer_wmi_apgeaction_exec_u64 short_platform ACER_WMID_GET_FUNCTION 4 initial_driver =
     (Inr 0, initial_driver\<lparr>trace := [WmiCall WMI_GUID2 2 [4, 0, 0, 0, 0, 0, 0, 0]]\<rparr>)
   \<and> fst (usb_charge_limit_show short_platform quirk_acer_sfg174_73 initial_driver) = Inr (- 1)"
  by (simp add: ex_defs acer_wmi_apgeaction_exec_u64_def usb_charge_limit_show_def u64_bytes_4)

subsection \<open>The battery stores\<close>





subsection \<open>Setting the system control mode to the mode it has\<close>

lemma profile_set_same_mode:
  "system_control_mode quirks \<noteq> 0 \<Longrightarrow> profile_new_mode p = Some (control_mode s) \<Longrightarrow>
     acer_platform_profile_set hw quirks p s = (0, s)"
  by (simp add: acer_platform_profile_set_def)

text \<open>
  Claim C1. The set of the profile adapter returns 0 without a register write when the
  code of the profile is the cached code (\<open>profile_set_same_mode\<close>). The store of the
  attribute does not: when it is given the cached code \<open>v\<close>, one of the three mode
  codes, it writes \<open>v\<close> to the register of the embedded controller all the same, and
  it returns the error of that write when the write fails.
\<close>

theorem store_same_mode_writes:
  assumes "control_mode s = v" and "1 \<le> v" and "v \<le> 3"
  shows "system_control_mode_store hw (0, v) count s =
           (if ec_write hw (trace s) ACER_SYSTEM_CONTROL_MODE_EC_OFFSET (word_of_int v) < 0
            then ec_write hw (trace s) ACER_SYSTEM_CONTROL_MODE_EC_OFFSET (word_of_int v)
            else count,
            log_event (EcWrite ACER_SYSTEM_CONTROL_MODE_EC_OFFSET (word_of_int v)) s)"
  using assms
  by (auto simp: system_control_mode_store_def ec_write_call_def log_event_def
      SYSTEM_CONTROL_BALANCED_def SYSTEM_CONTROL_PERFORMANCE_def)

theorem store_same_mode_writes_witness:
  "system_control_mode_store battery_platform (0, 2) 2 (initial_driver\<lparr>control_mode := 2\<rparr>) =
     (2, initial_driver\<lparr>control_mode := 2, trace := [EcWrite 0x45 2]\<rparr>)
   \<and> system_control_mode_store failing_platform (0, 2) 2 (initial_driver\<lparr>control_mode := 2\<rparr>) =
     (- 5, initial_driver\<lparr>control_mode := 2, trace := [EcWrite 0x45 2]\<rparr>)"
  using store_same_mode_writes [of "initial_driver\<lparr>control_mode := 2\<rparr>" 2 battery_platform 2]
    store_same_mode_writes [of "initial_driver\<lparr>control_mode := 2\<rparr>" 2 failing_platform 2]
  by (simp add: ex_defs)

subsection \<open>Sets whose firmware call fails\<close>

lemma store_write_failure:
  "0 \<le> control_mode s \<Longrightarrow> 1 \<le> v \<Longrightarrow> v \<le> 3 \<Longrightarrow>
   ec_write hw (trace s) ACER_SYSTEM_CONTROL_MODE_EC_OFFSET (word_of_int v) < 0 \<Longrightarrow>
     fst (system_control_mode_store hw (0, v) count s) < 0 \<and>
     control_mode (snd (system_control_mode_store hw (0, v) count s)) = control_mode s"
  by (auto simp: system_control_mode_store_def ec_write_call_def log_event_def
      SYSTEM_CONTROL_BALANCED_def SYSTEM_CONTROL_PERFORMANCE_def)

text \<open>
  Claim C2. The store of the system control mode returns the error and keeps the cached
  mode when the register write fails (\<open>store_write_failure\<close>). The other stores do not
  behave so. When the firmware call of the USB charge mode store fails, the store returns
  \<open>-ENODEV\<close>, but the cached mode already holds the value asked for. The two battery
  stores, given a boolean while their mode is known, return the count whatever the
  firmware answers, so a failed set call is not reported.
\<close>

theorem set_failure:
  "(usb_charge_mode quirks \<noteq> 0 \<and>
    ACPI_FAILURE (fst (wmi_evaluate_method hw (trace s) WMI_GUID2 ACER_WMID_SET_FUNCTION (u64_bytes 1969924)))
      \<longrightarrow> usb_charge_mode_store hw quirks (Some 1) count s =
            (- ENODEV, (log_event (WmiCall WMI_GUID2 ACER_WMID_SET_FUNCTION (u64_bytes 1969924)) s)
                \<lparr>usb_charge_mode_enable := 1\<rparr>))
   \<and> (0 \<le> health_mode (battery_status s) \<longrightarrow> fst (health_mode_store hw (0, b) count s) = count)
   \<and> (0 \<le> calibration_mode (battery_status s) \<longrightarrow> fst (calibration_mode_store hw (0, b) count s) = count)"
  by (auto simp: usb_charge_mode_store_def sscanf_hhd_def acer_wmi_apgeaction_exec_u64_def
      wmi_call_def log_event_def health_mode_store_def calibration_mode_store_def split: prod.splits)

theorem set_failure_witness:
  "usb_charge_mode_store failing_platform quirk_acer_sfg174_73 (Some 1) 2 initial_driver =
     (- 19, initial_driver
              \<lparr>usb_charge_mode_enable := 1,
               trace := [WmiCall WMI_GUID2 1 (u64_bytes 1969924)]\<rparr>)
   \<and> fst (health_mode_store failing_platform (0, True) 2 initial_driver) = 2
   \<and> fst (calibration_mode_store failing_platform (0, True) 2 initial_driver) = 2"
  using set_failure [of quirk_acer_sfg174_73 failing_platform initial_driver 2 True]
  by (simp add: ex_defs)

subsection \<open>The USB charge limit\<close>

text \<open>
  What the store of the limit computes. With the capability flag off it returns
  \<open>-EOPNOTSUPP\<close>, and with the flag on and the cached charge mode 0 it returns
  \<open>-EINVAL\<close>, in both cases for every value and with the state, and so the trace,
  unchanged. Otherwise it decides on the byte the integer is parsed into: for 10, 20 and
  30 it makes the ApgeAction set call with the operand 659204, 1314564 or 1969924 and
  returns the count, or \<open>-ENODEV\<close> when the call fails; for every other byte it
  returns \<open>-EINVAL\<close> with the state unchanged.
\<close>

lemma limit_store_cases:
  "usb_charge_limit_store hw quirks (Some n) count s =
     (if usb_charge_mode quirks = 0 then (- EOPNOTSUPP, s)
      else if usb_charge_mode_enable s = 0 then (- EINVAL, s)
      else if n mod 256 \<in> {10, 20, 30} then
        (case acer_wmi_apgeaction_exec_u64 hw ACER_WMID_SET_FUNCTION
                (if n mod 256 = 10 then 659204 else if n mod 256 = 20 then 1314564 else 1969924) s of
           (Inl status, s1) \<Rightarrow> (- ENODEV, s1)
         | (Inr result, s1) \<Rightarrow> (count, s1))
      else (- EINVAL, s))"
  by (simp add: usb_charge_limit_store_def sscanf_hhd_def
      byte_of_int_eq_10 byte_of_int_eq_20 byte_of_int_eq_30)

text \<open>For the integers that fit the byte, exactly 10, 20 and 30 are accepted.\<close>

lemma limit_store_in_range:
  assumes "usb_charge_mode quirks \<noteq> 0" and "usb_charge_mode_enable s \<noteq> 0"
    and "0 \<le> n" and "n < 256"
  shows "usb_charge_limit_store hw quirks (Some n) count s =
           (if n \<in> {10, 20, 30} then
              (case acer_wmi_apgeaction_exec_u64 hw ACER_WMID_SET_FUNCTION
                      (if n = 10 then 659204 else if n = 20 then 1314564 else 1969924) s of
                 (Inl status, s1) \<Rightarrow> (- ENODEV, s1)
               | (Inr result, s1) \<Rightarrow> (count, s1))
            else (- EINVAL, s))"
  using assms by (simp add: limit_store_cases)

lemma limit_store_examples:
  "usb_charge_limit_store usb_platform quirk_acer_sfg174_73 (Some 20) 3
     (initial_driver\<lparr>usb_charge_mode_enable := 1\<rparr>) =
     (3, initial_driver
           \<lparr>usb_charge_mode_enable := 1, trace := [WmiCall WMI_GUID2 1 (u64_bytes 1314564)]\<rparr>)
   \<and> usb_charge_limit_store usb_platform quirk_acer_sfg174_73 (Some 20) 3 initial_driver =
     (- 22, initial_driver)
   \<and> usb_charge_limit_store usb_platform quirk_acer_sfg174_73 (Some 15) 3
        (initial_driver\<lparr>usb_charge_mode_enable := 1\<rparr>) =
     (- 22, initial_driver\<lparr>usb_charge_mode_enable := 1\<rparr>)
   \<and> usb_charge_limit_store usb_platform quirk_unknown (Some 20) 3
        (initial_driver\<lparr>usb_charge_mode_enable := 1\<rparr>) =
     (- 95, initial_driver\<lparr>usb_charge_mode_enable := 1\<rparr>)"
  by (simp add: limit_store_cases ex_defs acer_wmi_apgeaction_exec_u64_def)

text \<open>
  Claim C4. The store of the limit answers as the claim says while the capability flag is
  off, while the cached charge mode is 0, and for every integer from 0 to 255
  (\<open>limit_store_cases\<close>, \<open>limit_store_in_range\<close>). It does not reject every other
  integer. With the flag on and the cached charge mode not 0, the integer 266 is parsed
  into a byte, which then holds 10: the store does with it what it does with 10, that
  is, it makes the ApgeAction set call with the operand 659204 of the limit 10 and returns
  the count, or \<open>-ENODEV\<close> when the call fails, where the claim asks for
  \<open>-EINVAL\<close> and no call.
\<close>

theorem limit_store_truncates:
  assumes "usb_charge_mode quirks \<noteq> 0" and "usb_charge_mode_enable s \<noteq> 0"
  shows "usb_charge_limit_store hw quirks (Some 266) count s =
           usb_charge_limit_store hw quirks (Some 10) count s
         \<and> fst (usb_charge_limit_store hw quirks (Some 266) count s) =
             (if ACPI_FAILURE (fst (wmi_evaluate_method hw (trace s) WMI_GUID2 ACER_WMID_SET_FUNCTION
                                      (u64_bytes 659204)))
              then - ENODEV else count)
         \<and> trace (snd (usb_charge_limit_store hw quirks (Some 266) count s)) =
             trace s @ [WmiCall WMI_GUID2 ACER_WMID_SET_FUNCTION (u64_bytes 659204)]"
  using assms
  by (simp add: usb_charge_limit_store_def sscanf_hhd_def acer_wmi_apgeaction_exec_u64_def
      wmi_call_def log_event_def case_prod_beta)

theorem limit_store_truncates_witness:
  "usb_charge_limit_store usb_platform quirk_acer_sfg174_73 (Some 266) 4
     (initial_driver\<lparr>usb_charge_mode_enable := 1\<rparr>) =
   (4, initial_driver
         \<lparr>usb_charge_mode_enable := 1, trace := [WmiCall WMI_GUID2 1 (u64_bytes 659204)]\<rparr>)"
  using limit_store_truncates [of quirk_acer_sfg174_73 "initial_driver\<lparr>usb_charge_mode_enable := 1\<rparr>"
      usb_platform 4]
  by (simp add: ex_defs usb_charge_limit_store_def sscanf_hhd_def acer_wmi_apgeaction_exec_u64_def)

subsection \<open>The start-up probe of the USB charge mode\<close>

text \<open>
  Claim C5. Let the capability flag be on and the ApgeAction namespace present. If the
  get call of the start-up probe gives 659200, the cached charge mode becomes 1; at any
  state where the get call gives 659200, the read of the limit returns 10. At any state
  where the firmware accepts the set call with the operand 663300, the store of the
  charge mode with the value 0 makes exactly that call through the ApgeAction namespace,
  caches 0 and returns the count. If the probe gives a value that is none of 663296,
  659200, 1314560 and 1969920, the cached charge mode becomes -1.
\<close>

theorem usb_probe_scenario:
  assumes quirk: "usb_charge_mode quirks \<noteq> 0" and guid: "wmi_has_guid hw WMI_GUID2"
  shows
   "(fst (acer_wmi_apgeaction_exec_u64 hw ACER_WMID_GET_FUNCTION 4 s) = Inr 659200 \<longrightarrow>
       usb_charge_mode_enable (init_usb_charge_mode hw quirks s) = 1
       \<and> fst (usb_charge_limit_show hw quirks s) = Inr 10)
    \<and> (\<not> ACPI_FAILURE (fst (wmi_evaluate_method hw (trace s) WMI_GUID2 ACER_WMID_SET_FUNCTION
                               (u64_bytes 663300))) \<longrightarrow>
         usb_charge_mode_store hw quirks (Some 0) count s =
           (count, (log_event (WmiCall WMI_GUID2 ACER_WMID_SET_FUNCTION (u64_bytes 663300)) s)
                     \<lparr>usb_charge_mode_enable := 0\<rparr>))
    \<and> (fst (acer_wmi_apgeaction_exec_u64 hw ACER_WMID_GET_FUNCTION 4 s) = Inr r
         \<and> r \<notin> {663296, 659200, 1314560, 1969920} \<longrightarrow>
         usb_charge_mode_enable (init_usb_charge_mode hw quirks s) = - 1)"
  using assms
  by (auto simp: init_usb_charge_mode_def usb_charge_limit_show_def usb_charge_mode_store_def
      sscanf_hhd_def acer_wmi_apgeaction_exec_u64_def wmi_call_def log_event_def
      split: prod.splits sum.splits)

text \<open>The scenario in sequence: the probe, then a read of the limit, then the store of
  0; and a probe that gets an unknown value.\<close>

theorem usb_probe_scenario_witness:
  "init_usb_charge_mode usb_platform quirk_acer_sfg174_73 initial_driver =
     initial_driver\<lparr>usb_charge_mode_enable := 1,
                    trace := [WmiCall WMI_GUID2 2 (u64_bytes 4)]\<rparr>
   \<and> usb_charge_limit_show usb_platform quirk_acer_sfg174_73
        (initial_driver\<lparr>usb_charge_mode_enable := 1, trace := [WmiCall WMI_GUID2 2 (u64_bytes 4)]\<rparr>) =
      (Inr 10, initial_driver\<lparr>usb_charge_mode_enable := 1,
                 trace := [WmiCall WMI_GUID2 2 (u64_bytes 4), WmiCall WMI_GUID2 2 (u64_bytes 4)]\<rparr>)
   \<and> usb_charge_mode_store usb_platform quirk_acer_sfg174_73 (Some 0) 2
        (initial_driver\<lparr>usb_charge_mode_enable := 1,
           trace := [WmiCall WMI_GUID2 2 (u64_bytes 4), WmiCall WMI_GUID2 2 (u64_bytes 4)]\<rparr>) =
      (2, initial_driver\<lparr>usb_charge_mode_enable := 0,
            trace := [WmiCall WMI_GUID2 2 (u64_bytes 4), WmiCall WMI_GUID2 2 (u64_bytes 4),
                      WmiCall WMI_GUID2 1 (u64_bytes 663300)]\<rparr>)
   \<and> usb_charge_mode_enable (init_usb_charge_mode short_platform quirk_acer_sfg174_73 initial_driver) = - 1"
  using usb_probe_scenario [of quirk_acer_sfg174_73 usb_platform initial_driver 2 0]
    usb_probe_scenario [of quirk_acer_sfg174_73 usb_platform
      "initial_driver\<lparr>usb_charge_mode_enable := 1, trace := [WmiCall WMI_GUID2 2 (u64_bytes 4)]\<rparr>" 2 0]
    usb_probe_scenario [of quirk_acer_sfg174_73 usb_platform
      "initial_driver\<lparr>usb_charge_mode_enable := 1,
           trace := [WmiCall WMI_GUID2 2 (u64_bytes 4), WmiCall WMI_GUID2 2 (u64_bytes 4)]\<rparr>" 2 0]
    usb_probe_scenario [of quirk_acer_sfg174_73 short_platform initial_driver 2 0]
  by (simp add: ex_defs init_usb_charge_mode_def usb_charge_limit_show_def
      acer_wmi_apgeaction_exec_u64_def le_u64_example)

subsection \<open>The profile adapter\<close>

lemma profile_get_of_new_mode:
  "profile_new_mode p = Some (control_mode s) \<Longrightarrow> acer_platform_profile_get s = Inr p"
  by (cases p) (simp_all add: acer_platform_profile_get_def SYSTEM_CONTROL_BALANCED_def
      SYSTEM_CONTROL_PERFORMANCE_def SYSTEM_CONTROL_SILENT_def)

lemma profile_set_ok_mode:
  "acer_platform_profile_set hw quirks p s = (0, s') \<Longrightarrow>
     profile_new_mode p = Some (control_mode s')"
  by (auto simp: acer_platform_profile_set_def ec_write_call_def log_event_def EOPNOTSUPP_def
      split: if_splits option.splits prod.splits)

text \<open>
  Claim C9. The profile get maps the code of balanced to the balanced profile, the code of
  performance to the performance profile and the code of silent to the low-power
  profile, and returns \<open>-EOPNOTSUPP\<close> for every other cached value. Whenever a
  profile set of \<open>p\<close> returns 0, a get on the state it leaves returns \<open>p\<close>.
\<close>

theorem profile_get_set:
  "(control_mode s = SYSTEM_CONTROL_BALANCED \<longrightarrow>
      acer_platform_profile_get s = Inr PLATFORM_PROFILE_BALANCED)
   \<and> (control_mode s = SYSTEM_CONTROL_PERFORMANCE \<longrightarrow>
      acer_platform_profile_get s = Inr PLATFORM_PROFILE_PERFORMANCE)
   \<and> (control_mode s = SYSTEM_CONTROL_SILENT \<longrightarrow>
      acer_platform_profile_get s = Inr PLATFORM_PROFILE_LOW_POWER)
   \<and> (control_mode s \<notin> {SYSTEM_CONTROL_BALANCED, SYSTEM_CONTROL_SILENT, SYSTEM_CONTROL_PERFORMANCE}
        \<longrightarrow> acer_platform_profile_get s = Inl (- EOPNOTSUPP))
   \<and> (acer_platform_profile_set hw quirks p s = (0, s') \<longrightarrow> acer_platform_profile_get s' = Inr p)"
proof -
  have "acer_platform_profile_get s' = Inr p"
    if "acer_platform_profile_set hw quirks p s = (0, s')"
    using that by (intro profile_get_of_new_mode profile_set_ok_mode)
  then show ?thesis
    by (simp add: acer_platform_profile_get_def SYSTEM_CONTROL_BALANCED_def
        SYSTEM_CONTROL_PERFORMANCE_def SYSTEM_CONTROL_SILENT_def)
qed

theorem profile_get_set_witness:
  "acer_platform_profile_set (example_platform (\<lambda>g m. (AE_OK, None)) (0, 1) 0 (\<lambda>n. 0))
       quirk_acer_sfg174_73 PLATFORM_PROFILE_PERFORMANCE (initial_driver\<lparr>control_mode := 1\<rparr>) =
     (0, initial_driver\<lparr>control_mode := 3, trace := [EcWrite 0x45 3]\<rparr>)
   \<and> acer_platform_profile_get (initial_driver\<lparr>control_mode := 3, trace := [EcWrite 0x45 3]\<rparr>) =
       Inr PLATFORM_PROFILE_PERFORMANCE
   \<and> acer_platform_profile_get (initial_driver\<lparr>control_mode := 1\<rparr>) = Inr PLATFORM_PROFILE_BALANCED
   \<and> acer_platform_profile_get (initial_driver\<lparr>control_mode := 2\<rparr>) = Inr PLATFORM_PROFILE_LOW_POWER
   \<and> acer_platform_profile_get initial_driver = Inl (- EOPNOTSUPP)"
  using profile_get_set [of "initial_driver\<lparr>control_mode := 1\<rparr>"
      "example_platform (\<lambda>g m. (AE_OK, None)) (0, 1) 0 (\<lambda>n. 0)"
      quirk_acer_sfg174_73 PLATFORM_PROFILE_PERFORMANCE
      "initial_driver\<lparr>control_mode := 3, trace := [EcWrite 0x45 3]\<rparr>"]
  by (simp add: acer_platform_profile_set_def acer_platform_profile_get_def ec_write_call_def
      log_event_def example_platform_def quirk_acer_sfg174_73_def initial_driver_def
      SYSTEM_CONTROL_BALANCED_def SYSTEM_CONTROL_PERFORMANCE_def SYSTEM_CONTROL_SILENT_def
      ACER_SYSTEM_CONTROL_MODE_EC_OFFSET_def EOPNOTSUPP_def)

subsection \<open>Registration with retries\<close>

lemma backoff_step: "min (backoff_delay i * 2) 1000 = backoff_delay (Suc i)"
  by (simp add: backoff_delay_def min_def)

lemma failed_attempts_Suc:
  "failed_attempts (Suc k) = failed_attempts k @ [ProfileRegister, Msleep (backoff_delay k)]"
  by (simp add: failed_attempts_def)

lemma failed_attempts_0: "failed_attempts 0 = []"
  by (simp add: failed_attempts_def)

lemma loop_success:
  assumes "j \<le> k" and "k < 10" and "trace s' = trace s @ failed_attempts j"
    and "\<forall>i. j \<le> i \<and> i < k \<longrightarrow> IS_ERR (attempt_result hw s i)"
    and "\<not> IS_ERR (attempt_result hw s k)"
  shows "profile_register_loop hw (Suc j) (backoff_delay j) s' =
           (0, s'\<lparr>platform_profile_device := attempt_result hw s k,
                  platform_profile_support := True,
                  trace := trace s @ failed_attempts k @ [ProfileRegister]\<rparr>)"
  using assms
proof (induction "k - j" arbitrary: j s')
  case 0
  then have "j = k" by simp
  with 0 show ?case
    by (subst profile_register_loop.simps)
      (simp add: max_retries_def log_event_def attempt_result_def)
next
  case (Suc d)
  then have lt: "j < k" by simp
  with Suc.prems have err: "IS_ERR (attempt_result hw s j)" by simp
  let ?s1 = "log_event (Msleep (backoff_delay j))
               (log_event ProfileRegister
                 (s'\<lparr>platform_profile_device := devm_platform_profile_register hw (trace s')\<rparr>))"
  have tr: "trace ?s1 = trace s @ failed_attempts (Suc j)"
    using Suc.prems by (simp add: log_event_def failed_attempts_Suc)
  have "profile_register_loop hw (Suc (Suc j)) (backoff_delay (Suc j)) ?s1 =
          (0, ?s1\<lparr>platform_profile_device := attempt_result hw s k,
                   platform_profile_support := True,
                   trace := trace s @ failed_attempts k @ [ProfileRegister]\<rparr>)"
    using Suc.hyps(2) lt Suc.prems by (intro Suc.hyps(1) tr) simp_all
  then show ?case
    using err lt Suc.prems(2,3)
    by (subst profile_register_loop.simps)
      (simp add: max_retries_def log_event_def attempt_result_def backoff_step)
qed

lemma loop_exhausted:
  assumes "j < 10" and "trace s' = trace s @ failed_attempts j"
    and "\<forall>i. j \<le> i \<and> i < 10 \<longrightarrow> IS_ERR (attempt_result hw s i)"
  shows "profile_register_loop hw (Suc j) (backoff_delay j) s' =
           (attempt_result hw s 9,
            s'\<lparr>platform_profile_device := attempt_result hw s 9,
               trace := trace s @ failed_attempts 9 @ [ProfileRegister]\<rparr>)"
  using assms
proof (induction "9 - j" arbitrary: j s')
  case 0
  then have "j = 9" by simp
  with 0 show ?case
    by (subst profile_register_loop.simps, subst profile_register_loop.simps)
      (simp add: max_retries_def log_event_def attempt_result_def PTR_ERR_def)
next
  case (Suc d)
  then have lt: "j < 9" by simp
  with Suc.prems have err: "IS_ERR (attempt_result hw s j)" by simp
  let ?s1 = "log_event (Msleep (backoff_delay j))
               (log_event ProfileRegister
                 (s'\<lparr>platform_profile_device := devm_platform_profile_register hw (trace s')\<rparr>))"
  have tr: "trace ?s1 = trace s @ failed_attempts (Suc j)"
    using Suc.prems by (simp add: log_event_def failed_attempts_Suc)
  have "profile_register_loop hw (Suc (Suc j)) (backoff_delay (Suc j)) ?s1 =
          (attempt_result hw s 9,
           ?s1\<lparr>platform_profile_device := attempt_result hw s 9,
               trace := trace s @ failed_attempts 9 @ [ProfileRegister]\<rparr>)"
    using Suc.hyps(2) lt Suc.prems by (intro Suc.hyps(1) tr) simp_all
  then show ?case
    using err lt Suc.prems(2)
    by (subst profile_register_loop.simps)
      (simp add: max_retries_def log_event_def attempt_result_def backoff_step)
qed

lemma loop_registrations:
  "length (filter is_register (trace (snd (profile_register_loop hw attempt delay_ms s))))
     \<le> length (filter is_register (trace s)) + (Suc max_retries - attempt)"
proof (induction hw attempt delay_ms s rule: profile_register_loop.induct)
  case (1 hw attempt delay_ms s)
  show ?case
    using "1.IH"
    by (subst profile_register_loop.simps)
      (auto simp: log_event_def Let_def Suc_diff_le)
qed

lemma failed_attempts_registers: "length (filter is_register (failed_attempts k)) = k"
  by (induction k) (simp_all add: failed_attempts_0 failed_attempts_Suc)

lemma example_attempt_result:
  "attempt_result (example_platform wmi rd wr reg) initial_driver k = reg k"
  by (simp add: attempt_result_def example_platform_def initial_driver_def failed_attempts_registers)

lemma failed_attempts_4:
  "failed_attempts 4 =
     [ProfileRegister, Msleep 100, ProfileRegister, Msleep 200,
      ProfileRegister, Msleep 400, ProfileRegister, Msleep 800]"
  by (simp add: failed_attempts_def backoff_delay_def upt_rec)

lemma failed_attempts_9:
  "failed_attempts 9 =
     [ProfileRegister, Msleep 100, ProfileRegister, Msleep 200,
      ProfileRegister, Msleep 400, ProfileRegister, Msleep 800,
      ProfileRegister, Msleep 1000, ProfileRegister, Msleep 1000,
      ProfileRegister, Msleep 1000, ProfileRegister, Msleep 1000,
      ProfileRegister, Msleep 1000]"
  by (simp add: failed_attempts_def backoff_delay_def upt_rec)

text \<open>
  Claim C7. With the capability flag on, the set-up registers at most ten times. If the
  first \<open>k\<close> attempts fail and attempt \<open>k + 1\<close> succeeds, for \<open>k\<close> below ten, the
  set-up returns 0 after exactly \<open>k + 1\<close> attempts, having slept after each failed
  attempt for the delay \<open>backoff_delay\<close> gives it. If all ten attempts fail, it
  returns the error of the tenth, having slept nine times, and not after the tenth. The
  nine delays are 100, 200, 400, 800 and then five times 1000.
\<close>

theorem registration_retry:
  assumes quirk: "system_control_mode quirks \<noteq> 0"
  shows "length (filter is_register (trace (snd (acer_platform_profile_setup hw quirks s))))
           \<le> length (filter is_register (trace s)) + 10
         \<and> (k < 10 \<and> (\<forall>i<k. IS_ERR (attempt_result hw s i)) \<and> \<not> IS_ERR (attempt_result hw s k) \<longrightarrow>
              acer_platform_profile_setup hw quirks s =
                (0, s\<lparr>platform_profile_device := attempt_result hw s k,
                      platform_profile_support := True,
                      trace := trace s @ failed_attempts k @ [ProfileRegister]\<rparr>))
         \<and> ((\<forall>i<10. IS_ERR (attempt_result hw s i)) \<longrightarrow>
              acer_platform_profile_setup hw quirks s =
                (attempt_result hw s 9,
                 s\<lparr>platform_profile_device := attempt_result hw s 9,
                    trace := trace s @ failed_attempts 9 @ [ProfileRegister]\<rparr>))
         \<and> map backoff_delay [0..<9] = [100, 200, 400, 800, 1000, 1000, 1000, 1000, 1000]"
proof -
  have d0: "backoff_delay 0 = 100" by (simp add: backoff_delay_def)
  have a: "length (filter is_register (trace (snd (acer_platform_profile_setup hw quirks s))))
           \<le> length (filter is_register (trace s)) + 10"
    using quirk loop_registrations [of hw 1 100 s]
    by (simp add: acer_platform_profile_setup_def max_retries_def)
  have b: "acer_platform_profile_setup hw quirks s =
                (0, s\<lparr>platform_profile_device := attempt_result hw s k,
                      platform_profile_support := True,
                      trace := trace s @ failed_attempts k @ [ProfileRegister]\<rparr>)"
    if "k < 10" "\<forall>i<k. IS_ERR (attempt_result hw s i)" "\<not> IS_ERR (attempt_result hw s k)"
    using quirk that loop_success [of 0 k s s hw]
    by (simp add: acer_platform_profile_setup_def failed_attempts_0 d0)
  have c: "acer_platform_profile_setup hw quirks s =
                (attempt_result hw s 9,
                 s\<lparr>platform_profile_device := attempt_result hw s 9,
                    trace := trace s @ failed_attempts 9 @ [ProfileRegister]\<rparr>)"
    if "\<forall>i<10. IS_ERR (attempt_result hw s i)"
    using quirk that loop_exhausted [of 0 s s hw]
    by (simp add: acer_platform_profile_setup_def failed_attempts_0 d0)
  have d: "map backoff_delay [0..<9] = [100, 200, 400, 800, 1000, 1000, 1000, 1000, 1000]"
    by (simp add: backoff_delay_def upt_rec)
  from a b c d show ?thesis by blast
qed


text \<open>The scenario of the specification, four failures and then a success, and ten
  failures.\<close>

theorem registration_retry_witness:
  "acer_platform_profile_setup usb_platform quirk_acer_sfg174_73 initial_driver =
     (0, initial_driver
           \<lparr>platform_profile_device := 4096, platform_profile_support := True,
            trace := [ProfileRegister, Msleep 100, ProfileRegister, Msleep 200,
                      ProfileRegister, Msleep 400, ProfileRegister, Msleep 800,
                      ProfileRegister]\<rparr>)
   \<and> acer_platform_profile_setup failing_platform quirk_acer_sfg174_73 initial_driver =
     (- 16, initial_driver
           \<lparr>platform_profile_device := - 16,
            trace := [ProfileRegister, Msleep 100, ProfileRegister, Msleep 200,
                      ProfileRegister, Msleep 400, ProfileRegister, Msleep 800,
                      ProfileRegister, Msleep 1000, ProfileRegister, Msleep 1000,
                      ProfileRegister, Msleep 1000, ProfileRegister, Msleep 1000,
                      ProfileRegister, Msleep 1000, ProfileRegister]\<rparr>)"
  using registration_retry [of quirk_acer_sfg174_73 usb_platform initial_driver 4]
    registration_retry [of quirk_acer_sfg174_73 failing_platform initial_driver 0]
  by (simp add: usb_platform_def failing_platform_def example_attempt_result IS_ERR_def
      quirk_acer_sfg174_73_def failed_attempts_4 failed_attempts_9)
    (simp add: initial_driver_def)

subsection \<open>The initialisation runs once\<close>

lemma probe_inited:
  "system_control_mode_inited s \<noteq> 0 \<Longrightarrow> system_control_mode quirks \<noteq> 0 \<Longrightarrow>
     acer_platform_profile_probe hw quirks choices s =
       (0, insert PLATFORM_PROFILE_PERFORMANCE (insert PLATFORM_PROFILE_BALANCED
             (insert PLATFORM_PROFILE_LOW_POWER choices)), s)"
  by (simp add: acer_platform_profile_probe_def)

lemma probe_quirk_off:
  "system_control_mode quirks = 0 \<Longrightarrow>
     acer_platform_profile_probe hw quirks choices s = (- EOPNOTSUPP, choices, s)"
  by (simp add: acer_platform_profile_probe_def)

lemma probe_calls_inited:
  "system_control_mode_inited s \<noteq> 0 \<Longrightarrow> system_control_mode quirks \<noteq> 0 \<Longrightarrow>
     probe_calls hw quirks n s = (replicate n 0, s)"
  by (induction n) (simp_all add: probe_inited)

lemma probe_calls_quirk_off:
  "system_control_mode quirks = 0 \<Longrightarrow> probe_calls hw quirks n s = (replicate n (- EOPNOTSUPP), s)"
  by (induction n) (simp_all add: probe_quirk_off)

lemma init_inited:
  "system_control_mode_inited (snd (acer_system_control_mode_init hw s)) = 1"
  by (simp add: acer_system_control_mode_init_def ec_read_call_def ec_write_call_def log_event_def
      Let_def split: prod.splits)

lemma init_ec_reads:
  "length (filter is_ec_read (trace (snd (acer_system_control_mode_init hw s)))) =
     Suc (length (filter is_ec_read (trace s)))"
  by (simp add: acer_system_control_mode_init_def ec_read_call_def ec_write_call_def log_event_def
      Let_def split: prod.splits)

lemma init_read_fails:
  "fst (ec_read hw (trace s) ACER_SYSTEM_CONTROL_MODE_EC_OFFSET) < 0 \<Longrightarrow>
     acer_system_control_mode_init hw s =
       (fst (ec_read hw (trace s) ACER_SYSTEM_CONTROL_MODE_EC_OFFSET),
        log_event (EcRead ACER_SYSTEM_CONTROL_MODE_EC_OFFSET) (s\<lparr>system_control_mode_inited := 1\<rparr>))"
  by (simp add: acer_system_control_mode_init_def ec_read_call_def log_event_def case_prod_beta)

lemma probe_ec_reads:
  "length (filter is_ec_read (trace (snd (snd (acer_platform_profile_probe hw quirks choices s)))))
     \<le> Suc (length (filter is_ec_read (trace s)))
   \<and> (system_control_mode quirks \<noteq> 0 \<longrightarrow>
        system_control_mode_inited (snd (snd (acer_platform_profile_probe hw quirks choices s))) \<noteq> 0)"
  using init_inited [of hw s] init_ec_reads [of hw s]
  by (auto simp: acer_platform_profile_probe_def split: prod.splits)

lemma probe_calls_ec_reads:
  "length (filter is_ec_read (trace (snd (probe_calls hw quirks n s))))
     \<le> Suc (length (filter is_ec_read (trace s)))"
proof (cases "system_control_mode quirks = 0")
  case True
  then show ?thesis by (simp add: probe_calls_quirk_off)
next
  case False
  show ?thesis
  proof (cases n)
    case 0
    then show ?thesis by simp
  next
    case (Suc m)
    obtain r c s1 where p: "acer_platform_profile_probe hw quirks {} s = (r, c, s1)"
      by (cases "acer_platform_profile_probe hw quirks {} s") auto
    with probe_ec_reads [of hw quirks "{}" s] False
    have "system_control_mode_inited s1 \<noteq> 0"
      and "length (filter is_ec_read (trace s1)) \<le> Suc (length (filter is_ec_read (trace s)))"
      by simp_all
    then show ?thesis using Suc p False by (simp add: probe_calls_inited)
  qed
qed

lemma init_control_mode:
  "fst (acer_system_control_mode_init hw s) \<noteq> 0 \<Longrightarrow>
     control_mode (snd (acer_system_control_mode_init hw s)) =
       (if fst (ec_read hw (trace s) ACER_SYSTEM_CONTROL_MODE_EC_OFFSET) < 0 then control_mode s
        else uint (snd (ec_read hw (trace s) ACER_SYSTEM_CONTROL_MODE_EC_OFFSET)))"
  by (auto simp: acer_system_control_mode_init_def ec_read_call_def ec_write_call_def log_event_def
      Let_def case_prod_beta split: if_splits)

lemma probe_calls_init_fails:
  assumes "system_control_mode quirks \<noteq> 0" and "system_control_mode_inited s = 0"
    and "fst (acer_system_control_mode_init hw s) \<noteq> 0"
  shows "probe_calls hw quirks (Suc n) s =
           (fst (acer_system_control_mode_init hw s) # replicate n 0,
            snd (acer_system_control_mode_init hw s))"
  using assms init_inited [of hw s]
  by (simp add: acer_platform_profile_probe_def case_prod_beta probe_calls_inited)

lemma replicate_2: "replicate 2 x = [x, x]"
  by (simp add: numeral_2_eq_2)

text \<open>
  Claim C10, as amended. Any number of profile probes, from any state, adds at most one
  register read to the trace. If the capability flag is on, the initialisation has not
  run and it fails, then the first probe returns its error and every later probe returns
  0 without running it again; the state they leave is the one the initialisation left,
  with its flag set. There the cached mode is as before when the register read failed,
  and the byte read when the initialisation failed after the read. In the first case the
  state is the old one with the flag set and the one read in its trace, so a cached mode
  of -1 stays -1 and the profile get returns \<open>-EOPNOTSUPP\<close>.
\<close>

theorem probe_init_once:
  "length (filter is_ec_read (trace (snd (probe_calls hw quirks n s))))
     \<le> length (filter is_ec_read (trace s)) + 1
   \<and> (system_control_mode quirks \<noteq> 0 \<and> system_control_mode_inited s = 0
        \<and> fst (acer_system_control_mode_init hw s) \<noteq> 0 \<longrightarrow>
        probe_calls hw quirks (Suc n) s =
          (fst (acer_system_control_mode_init hw s) # replicate n 0,
           snd (acer_system_control_mode_init hw s))
        \<and> system_control_mode_inited (snd (probe_calls hw quirks (Suc n) s)) = 1
        \<and> control_mode (snd (probe_calls hw quirks (Suc n) s)) =
            (if fst (ec_read hw (trace s) ACER_SYSTEM_CONTROL_MODE_EC_OFFSET) < 0 then control_mode s
             else uint (snd (ec_read hw (trace s) ACER_SYSTEM_CONTROL_MODE_EC_OFFSET))))
   \<and> (system_control_mode quirks \<noteq> 0 \<and> system_control_mode_inited s = 0
        \<and> fst (ec_read hw (trace s) ACER_SYSTEM_CONTROL_MODE_EC_OFFSET) < 0 \<longrightarrow>
        probe_calls hw quirks (Suc n) s =
          (fst (ec_read hw (trace s) ACER_SYSTEM_CONTROL_MODE_EC_OFFSET) # replicate n 0,
           log_event (EcRead ACER_SYSTEM_CONTROL_MODE_EC_OFFSET) (s\<lparr>system_control_mode_inited := 1\<rparr>))
        \<and> (control_mode s = - 1 \<longrightarrow>
             acer_platform_profile_get (snd (probe_calls hw quirks (Suc n) s)) = Inl (- EOPNOTSUPP)))"
proof -
  have a: "length (filter is_ec_read (trace (snd (probe_calls hw quirks n s))))
             \<le> length (filter is_ec_read (trace s)) + 1"
    using probe_calls_ec_reads [of hw quirks n s] by simp
  have b: "probe_calls hw quirks (Suc n) s =
             (fst (acer_system_control_mode_init hw s) # replicate n 0,
              snd (acer_system_control_mode_init hw s))
           \<and> system_control_mode_inited (snd (probe_calls hw quirks (Suc n) s)) = 1
           \<and> control_mode (snd (probe_calls hw quirks (Suc n) s)) =
               (if fst (ec_read hw (trace s) ACER_SYSTEM_CONTROL_MODE_EC_OFFSET) < 0 then control_mode s
                else uint (snd (ec_read hw (trace s) ACER_SYSTEM_CONTROL_MODE_EC_OFFSET)))"
    if "system_control_mode quirks \<noteq> 0" "system_control_mode_inited s = 0"
      "fst (acer_system_control_mode_init hw s) \<noteq> 0"
    using that init_inited [of hw s] init_control_mode [of hw s]
    by (simp only: probe_calls_init_fails snd_conv simp_thms)
  have c: "probe_calls hw quirks (Suc n) s =
          (fst (ec_read hw (trace s) ACER_SYSTEM_CONTROL_MODE_EC_OFFSET) # replicate n 0,
           log_event (EcRead ACER_SYSTEM_CONTROL_MODE_EC_OFFSET) (s\<lparr>system_control_mode_inited := 1\<rparr>))"
    if "system_control_mode quirks \<noteq> 0" "system_control_mode_inited s = 0"
      "fst (ec_read hw (trace s) ACER_SYSTEM_CONTROL_MODE_EC_OFFSET) < 0"
    using that
    by (simp add: acer_platform_profile_probe_def init_read_fails probe_calls_inited log_event_def)
  have d: "acer_platform_profile_get (snd (probe_calls hw quirks (Suc n) s)) = Inl (- EOPNOTSUPP)"
    if "system_control_mode quirks \<noteq> 0" "system_control_mode_inited s = 0"
      "fst (ec_read hw (trace s) ACER_SYSTEM_CONTROL_MODE_EC_OFFSET) < 0" "control_mode s = - 1"
  proof -
    from c [OF that(1-3)]
    have "snd (probe_calls hw quirks (Suc n) s) =
            log_event (EcRead ACER_SYSTEM_CONTROL_MODE_EC_OFFSET) (s\<lparr>system_control_mode_inited := 1\<rparr>)"
      by (simp only: snd_conv)
    with that(4) show ?thesis
      by (simp add: acer_platform_profile_get_def log_event_def SYSTEM_CONTROL_BALANCED_def
          SYSTEM_CONTROL_PERFORMANCE_def SYSTEM_CONTROL_SILENT_def)
  qed
  from a b c d show ?thesis by blast
qed

theorem probe_init_once_witness:
  "probe_calls failing_platform quirk_acer_sfg174_73 3 initial_driver =
     ([- 5, 0, 0], initial_driver\<lparr>system_control_mode_inited := 1, trace := [EcRead 0x45]\<rparr>)
   \<and> acer_platform_profile_get
        (initial_driver\<lparr>system_control_mode_inited := 1, trace := [EcRead 0x45]\<rparr>) = Inl (- 95)
   \<and> probe_calls write_failing_platform quirk_acer_sfg174_73 3
        (initial_driver\<lparr>enable_system_control_mode := 3\<rparr>) =
     ([- 5, 0, 0],
      initial_driver\<lparr>enable_system_control_mode := 3, control_mode := 2,
                     system_control_mode_inited := 1,
                     trace := [EcRead 0x45, EcWrite 0x45 3]\<rparr>)"
  using probe_init_once [of failing_platform quirk_acer_sfg174_73 2 initial_driver]
    probe_init_once [of write_failing_platform quirk_acer_sfg174_73 2
      "initial_driver\<lparr>enable_system_control_mode := 3\<rparr>"]
  by (simp add: ex_defs write_failing_platform_def replicate_2
      acer_platform_profile_get_def acer_system_control_mode_init_def
      SYSTEM_CONTROL_BALANCED_def SYSTEM_CONTROL_PERFORMANCE_def SYSTEM_CONTROL_SILENT_def
      del: probe_calls.simps)

text \<open>Against claim C10 as stated: the start-up parameter is 0, which is not a mode
  code, and the register holds 2. The first probe fails with \<open>-EINVAL\<close> and the later
  probes return 0, but the cached mode is 2, not -1, and the profile get returns the
  low-power profile.\<close>

theorem init_failure_counterexample:
  "probe_calls battery_platform quirk_acer_sfg174_73 3
     (initial_driver\<lparr>enable_system_control_mode := 0\<rparr>) =
     ([- 22, 0, 0],
      initial_driver\<lparr>enable_system_control_mode := 0, control_mode := 2,
                     system_control_mode_inited := 1, trace := [EcRead 0x45]\<rparr>)
   \<and> acer_platform_profile_get
        (initial_driver\<lparr>enable_system_control_mode := 0, control_mode := 2,
                       system_control_mode_inited := 1, trace := [EcRead 0x45]\<rparr>) =
      Inr PLATFORM_PROFILE_LOW_POWER"
  by (simp add: ex_defs numeral_3_eq_3 acer_platform_profile_get_def acer_platform_profile_probe_def
      acer_system_control_mode_init_def
      SYSTEM_CONTROL_BALANCED_def SYSTEM_CONTROL_PERFORMANCE_def SYSTEM_CONTROL_SILENT_def)


end
